theory Spec2Isabelle
  imports Complex_Main "HOL-Library.AList" "HOL-Library.Word"
begin

section \<open>Python values\<close>

subsection \<open>Strings\<close>

text \<open>
  A Python \<open>str\<close> is a sequence of Unicode code points; \<open>len\<close> counts code points.
  A string is therefore a list of code points, and \<open>py\<close> embeds an ASCII literal.
\<close>

type_synonym pystr = "nat list"

type_synonym pybytes = "8 word list"

definition py :: "string \<Rightarrow> pystr" where
  "py s = map of_char s"

text \<open>
  The characters that \<open>str.strip()\<close>, \<open>str.isspace()\<close> and the regular expression class
  \<open>\s\<close> (on \<open>str\<close> patterns) treat as whitespace.
\<close>

definition py_isspace :: "nat \<Rightarrow> bool" where
  "py_isspace c =
     ((9 \<le> c \<and> c \<le> 13) \<or> (28 \<le> c \<and> c \<le> 32) \<or> c = 133 \<or> c = 160 \<or> c = 5760 \<or>
      (8192 \<le> c \<and> c \<le> 8202) \<or> c = 8232 \<or> c = 8233 \<or> c = 8239 \<or> c = 8287 \<or> c = 12288)"

definition lstrip :: "pystr \<Rightarrow> pystr" where
  "lstrip s = dropWhile py_isspace s"

definition rstrip :: "pystr \<Rightarrow> pystr" where
  "rstrip s = rev (dropWhile py_isspace (rev s))"

definition strip :: "pystr \<Rightarrow> pystr" where
  "strip s = rstrip (lstrip s)"

text \<open>\<open>s.replace(",", "")\<close>: every occurrence of the one-character string is removed.\<close>

definition remove_char :: "nat \<Rightarrow> pystr \<Rightarrow> pystr" where
  "remove_char c s = filter (\<lambda>x. x \<noteq> c) s"

text \<open>\<open>sep.join(parts)\<close>\<close>

fun str_join :: "pystr \<Rightarrow> pystr list \<Rightarrow> pystr" where
  "str_join sep [] = []"
| "str_join sep [x] = x"
| "str_join sep (x # y # ys) = x @ sep @ str_join sep (y # ys)"

text \<open>Decimal rendering of a non-negative integer, as an f-string prints \<open>len(...)\<close>.\<close>

fun str_of_nat :: "nat \<Rightarrow> pystr" where
  "str_of_nat n = (if n < 10 then [48 + n] else str_of_nat (n div 10) @ [48 + n mod 10])"

declare str_of_nat.simps [simp del]

subsection \<open>Exceptions\<close>

text \<open>
  An exception is its class and its message (\<open>str(e)\<close>). \<open>JSONDecodeError\<close> is the class
  the first handler of the extraction run catches; every other class falls to the
  generic \<open>except Exception\<close> handler.
\<close>

datatype exc_class = JSONDecodeError | ValueError | AttributeError | OverflowError
  | RuntimeError | OtherException

datatype pyexc = Exc exc_class pystr



subsection \<open>Floats\<close>

text \<open>
  A Python \<open>float\<close> is written symbolically: \<open>FDec neg r\<close> is the IEEE double nearest to
  the rational \<open>r \<ge> 0\<close> with sign \<open>neg\<close> (round half to even, overflow to infinity), the
  way \<open>float(str)\<close> and a float literal both round a decimal. Equal terms denote equal
  doubles; two different terms may denote the same double.
\<close>

datatype pyfloat = FDec bool rat | FInf bool | FNaN


subsection \<open>JSON values as \<open>json.loads\<close> builds them\<close>

text \<open>
  A \<open>dict\<close> is an association list in insertion order; \<open>d.get(k)\<close> is \<open>map_of d k\<close> and
  \<open>d[k] = v\<close> is \<open>AList.update k v d\<close> (in place when the key exists, appended otherwise).
\<close>

datatype json = JNull | JBool bool | JInt int | JFloat pyfloat | JStr pystr
  | JList "json list" | JDict "(pystr \<times> json) list"




section \<open>External collaborators\<close>

text \<open>
  The PDF library, the imaging library, the OCR engine, the hash function, the JSON
  parser and the hosted agent are not part of the repository: they are parameters.
  \<open>'page\<close> is a page handle, \<open>'img\<close> an image. Opening a document, running OCR, parsing
  JSON and invoking the agent may raise. \<open>agent_invoke\<close> takes the user's task (the
  prompt is built around it) and returns the content of the agent's last message,
  which is taken to be text; the agent reads the store through the tools, so
  \<open>agent_invoke\<close> is the agent on the store of the run.
  \<open>strftime_pads_year\<close> tells whether the platform's \<open>strftime\<close> pads \<open>%Y\<close> to four
  digits for years below 1000. \<open>unicode_decimal\<close> is the interpreter's Unicode database:
  the value of a code point from 128 on that is a decimal digit (\<open>Py_UNICODE_TODECIMAL\<close>).
\<close>

record ('page, 'img) env =
  sha256_hexdigest :: "pybytes \<Rightarrow> pystr"
  fitz_open :: "pybytes \<Rightarrow> pyexc + 'page list"
  get_text :: "'page \<Rightarrow> pystr"
  get_pixmap_image :: "'page \<Rightarrow> int \<Rightarrow> 'img"
  img_convert :: "pystr \<Rightarrow> 'img \<Rightarrow> 'img"
  exif_transpose :: "'img \<Rightarrow> 'img"
  autocontrast :: "'img \<Rightarrow> 'img"
  filter_sharpen :: "'img \<Rightarrow> 'img"
  img_point :: "(nat \<Rightarrow> nat) \<Rightarrow> pystr \<Rightarrow> 'img \<Rightarrow> 'img"
  image_to_string :: "'img \<Rightarrow> pystr \<Rightarrow> pyexc + pystr"
  json_loads :: "pystr \<Rightarrow> pyexc + json"
  unicode_decimal :: "nat \<Rightarrow> nat option"
  strftime_pads_year :: bool
  get_anthropic_key :: "pystr option"
  agent_invoke :: "pystr \<Rightarrow> pyexc + pystr"

section \<open>Regular expressions\<close>

text \<open>
  The fragment of Python's \<open>re\<close> that the program and \<open>datetime.strptime\<close> use: character
  classes, sequence, alternation, greedy \<open>?\<close>, greedy and lazy \<open>*\<close> over a class, and
  numbered groups. \<open>rx_matches r s g\<close> lists every way \<open>r\<close> matches a prefix of \<open>s\<close>, in
  the order the backtracking matcher tries them, as the rest of the string and the
  groups captured; the match Python reports is the first of the list.
\<close>

datatype rx = Cls "nat \<Rightarrow> bool" | Eps | Seq rx rx | Alt rx rx | Opt rx
  | Star "nat \<Rightarrow> bool" | LazyStar "nat \<Rightarrow> bool" | Grp nat rx

type_synonym groups = "(nat \<times> pystr) list"

fun rx_matches :: "rx \<Rightarrow> pystr \<Rightarrow> groups \<Rightarrow> (pystr \<times> groups) list" where
  "rx_matches (Cls P) [] g = []"
| "rx_matches (Cls P) (x # xs) g = (if P x then [(xs, g)] else [])"
| "rx_matches Eps s g = [(s, g)]"
| "rx_matches (Seq a b) s g = concat (map (\<lambda>(s', g'). rx_matches b s' g') (rx_matches a s g))"
| "rx_matches (Alt a b) s g = rx_matches a s g @ rx_matches b s g"
| "rx_matches (Opt a) s g = rx_matches a s g @ [(s, g)]"
| "rx_matches (Star P) [] g = [([], g)]"
| "rx_matches (Star P) (x # xs) g = (if P x then rx_matches (Star P) xs g else []) @ [(x # xs, g)]"
| "rx_matches (LazyStar P) [] g = [([], g)]"
| "rx_matches (LazyStar P) (x # xs) g = (x # xs, g) # (if P x then rx_matches (LazyStar P) xs g else [])"
| "rx_matches (Grp n a) s g =
     map (\<lambda>(s', g'). (s', (n, take (length s - length s') s) # g')) (rx_matches a s g)"

text \<open>\<open>re.match\<close>: a match at the start of the string.\<close>

definition re_match :: "rx \<Rightarrow> pystr \<Rightarrow> (pystr \<times> groups) option" where
  "re_match r s = (case rx_matches r s [] of [] \<Rightarrow> None | m # ms \<Rightarrow> Some m)"

text \<open>\<open>re.search\<close>: the match at the leftmost position that has one.\<close>

fun re_search :: "rx \<Rightarrow> pystr \<Rightarrow> (pystr \<times> groups) option" where
  "re_search r [] = re_match r []"
| "re_search r (x # xs) = (case re_match r (x # xs) of Some m \<Rightarrow> Some m | None \<Rightarrow> re_search r xs)"

definition group :: "groups \<Rightarrow> nat \<Rightarrow> pystr" where
  "group g n = (case map_of g n of Some t \<Rightarrow> t | None \<Rightarrow> [])"

definition lit :: "nat \<Rightarrow> rx" where
  "lit c = Cls (\<lambda>x. x = c)"

definition one_of :: "nat list \<Rightarrow> rx" where
  "one_of cs = Cls (\<lambda>x. x \<in> set cs)"

definition seq :: "rx list \<Rightarrow> rx" where
  "seq rs = foldr Seq rs Eps"

text \<open>
  The pattern of \<open>extract_json\<close>, three backticks, \<open>(?:json)?\s*(\{.*?\})\s*\<close>, three
  backticks, under \<open>DOTALL | IGNORECASE\<close>: 96 is the backtick, 123 and 125 the braces,
  \<open>.\<close> is any character, and each letter of \<open>json\<close> matches both cases (\<open>s\<close> also
  U+017F, which Unicode case-insensitive matching equates with it).
\<close>

definition fence_rx :: rx where
  "fence_rx = seq [lit 96, lit 96, lit 96,
                   Opt (seq [one_of [106, 74], one_of [115, 83, 383], one_of [111, 79], one_of [110, 78]]),
                   Star py_isspace,
                   Grp 1 (seq [lit 123, LazyStar (\<lambda>x. True), lit 125]),
                   Star py_isspace,
                   lit 96, lit 96, lit 96]"

definition extract_json :: "pystr \<Rightarrow> pystr" where
  "extract_json text =
     (if text = [] then text
      else (case re_search fence_rx text of
              Some (rest, g) \<Rightarrow> strip (group g 1)
            | None \<Rightarrow> strip text))"

section \<open>Numbers and dates\<close>

text \<open>
  \<open>float(s)\<close> and \<open>int(s)\<close> on a string first turn it into ASCII
  (\<open>_PyUnicode_TransformDecimalAndSpaceToASCII\<close>): a string that is all ASCII stays as
  it is; otherwise a code point below 127 stays, a whitespace character becomes a
  space, a Unicode decimal digit becomes the ASCII digit of its value, and at the
  first other character the string ends with \<open>?\<close>. \<open>todecimal\<close> is the digit value
  of a code point, which is also what the class \<open>\d\<close> of a regular expression asks for.
\<close>

definition is_digit :: "nat \<Rightarrow> bool" where
  "is_digit c = (48 \<le> c \<and> c \<le> 57)"

definition todecimal :: "('page, 'img) env \<Rightarrow> nat \<Rightarrow> nat option" where
  "todecimal E c =
     (if c < 128 then (if is_digit c then Some (c - 48) else None) else unicode_decimal E c)"

fun transform_decimal_and_space :: "('page, 'img) env \<Rightarrow> pystr \<Rightarrow> pystr" where
  "transform_decimal_and_space E [] = []"
| "transform_decimal_and_space E (c # s) =
     (if c < 127 then c # transform_decimal_and_space E s
      else if py_isspace c then 32 # transform_decimal_and_space E s
      else (case todecimal E c of
              Some d \<Rightarrow> (48 + d) # transform_decimal_and_space E s
            | None \<Rightarrow> [63]))"

definition to_ascii :: "('page, 'img) env \<Rightarrow> pystr \<Rightarrow> pystr" where
  "to_ascii E s = (if list_all (\<lambda>c. c < 128) s then s else transform_decimal_and_space E s)"

text \<open>
  \<open>float(s)\<close> on the ASCII form: surrounding whitespace is dropped (the whitespace of
  C), then comes an optional sign and either \<open>inf\<close>, \<open>infinity\<close> or \<open>nan\<close> in any case,
  or a decimal number: digits with single underscores between them, an optional
  fraction and an optional exponent. \<open>None\<close> is \<open>ValueError\<close>.
\<close>

definition float_isspace :: "nat \<Rightarrow> bool" where
  "float_isspace c = ((9 \<le> c \<and> c \<le> 13) \<or> c = 32)"

fun digitpart_rest :: "pystr \<Rightarrow> nat list \<times> pystr" where
  "digitpart_rest [] = ([], [])"
| "digitpart_rest [c] = (if is_digit c then ([c - 48], []) else ([], [c]))"
| "digitpart_rest (c # d # s) =
     (if is_digit c then (case digitpart_rest (d # s) of (ds, r) \<Rightarrow> ((c - 48) # ds, r))
      else if c = 95 \<and> is_digit d then (case digitpart_rest s of (ds, r) \<Rightarrow> ((d - 48) # ds, r))
      else ([], c # d # s))"

fun digitpart :: "pystr \<Rightarrow> (nat list \<times> pystr) option" where
  "digitpart [] = None"
| "digitpart (c # s) =
     (if is_digit c then (case digitpart_rest s of (ds, r) \<Rightarrow> Some ((c - 48) # ds, r)) else None)"

definition digits_val :: "nat list \<Rightarrow> nat" where
  "digits_val ds = foldl (\<lambda>a d. 10 * a + d) 0 ds"

definition decimal_float :: "bool \<Rightarrow> nat list \<Rightarrow> nat list \<Rightarrow> int \<Rightarrow> pyfloat" where
  "decimal_float neg ip fp e =
     (let n = of_nat (digits_val (ip @ fp)); k = e - int (length fp)
      in FDec neg (if k \<ge> 0 then n * 10 ^ nat k else n / 10 ^ nat (- k)))"

fun float_exponent :: "bool \<Rightarrow> nat list \<Rightarrow> nat list \<Rightarrow> pystr \<Rightarrow> pyfloat option" where
  "float_exponent neg ip fp [] = Some (decimal_float neg ip fp 0)"
| "float_exponent neg ip fp (c # s) =
     (if c = 101 \<or> c = 69 then
        (let (eneg, s') = (case s of [] \<Rightarrow> (False, s)
                           | x # xs \<Rightarrow> if x = 45 then (True, xs) else if x = 43 then (False, xs) else (False, s))
         in case digitpart s' of
              Some (ds, []) \<Rightarrow> Some (decimal_float neg ip fp (if eneg then - int (digits_val ds) else int (digits_val ds)))
            | _ \<Rightarrow> None)
      else None)"

definition float_number :: "bool \<Rightarrow> pystr \<Rightarrow> pyfloat option" where
  "float_number neg s =
     (case digitpart s of
        Some (ip, r1) \<Rightarrow>
          (case r1 of
             [] \<Rightarrow> float_exponent neg ip [] r1
           | c # r2 \<Rightarrow>
               if c = 46 then
                 (case digitpart r2 of
                    Some (fp, r3) \<Rightarrow> float_exponent neg ip fp r3
                  | None \<Rightarrow> float_exponent neg ip [] r2)
               else float_exponent neg ip [] r1)
      | None \<Rightarrow>
          (case s of
             [] \<Rightarrow> None
           | c # r2 \<Rightarrow>
               if c = 46 then
                 (case digitpart r2 of
                    Some (fp, r3) \<Rightarrow> float_exponent neg [] fp r3
                  | None \<Rightarrow> None)
               else None))"

definition ascii_lower :: "pystr \<Rightarrow> pystr" where
  "ascii_lower s = map (\<lambda>c. if 65 \<le> c \<and> c \<le> 90 then c + 32 else c) s"

definition float_abs :: "bool \<Rightarrow> pystr \<Rightarrow> pyfloat option" where
  "float_abs neg s =
     (if ascii_lower s = py ''inf'' \<or> ascii_lower s = py ''infinity'' then Some (FInf neg)
      else if ascii_lower s = py ''nan'' then Some FNaN
      else float_number neg s)"

definition float_of_str :: "('page, 'img) env \<Rightarrow> pystr \<Rightarrow> pyfloat option" where
  "float_of_str E s =
     (case rev (dropWhile float_isspace (rev (dropWhile float_isspace (to_ascii E s)))) of
        [] \<Rightarrow> None
      | c # r \<Rightarrow> if c = 45 then float_abs True r
                 else if c = 43 then float_abs False r
                 else float_abs False (c # r))"

text \<open>
  \<open>float(i)\<close> on an integer rounds to the nearest double and raises \<open>OverflowError\<close>
  when the result would exceed the largest double.
\<close>

definition float_of_int :: "int \<Rightarrow> pyexc + pyfloat" where
  "float_of_int i =
     (if \<bar>i\<bar> < 2 ^ 1024 - 2 ^ 970 then Inr (FDec (i < 0) (of_int \<bar>i\<bar>))
      else Inl (Exc OverflowError (py ''int too large to convert to float'')))"

text \<open>\<open>re.sub(r"^\$", "", s)\<close>: \<open>^\<close> matches at the start only, so at most one \<open>$\<close> goes.\<close>

definition sub_leading_dollar :: "pystr \<Rightarrow> pystr" where
  "sub_leading_dollar s = (case s of [] \<Rightarrow> [] | c # r \<Rightarrow> if c = 36 then r else s)"

fun coerce_number :: "('page, 'img) env \<Rightarrow> json \<Rightarrow> pyexc + pyfloat option" where
  "coerce_number E JNull = Inr None"
| "coerce_number E (JBool b) = map_sum id Some (float_of_int (if b then 1 else 0))"
| "coerce_number E (JInt i) = map_sum id Some (float_of_int i)"
| "coerce_number E (JFloat x) = Inr (Some x)"
| "coerce_number E (JStr x) =
     (let s = remove_char 44 (strip x);
          s = sub_leading_dollar s
      in case float_of_str E s of Some v \<Rightarrow> Inr (Some v) | None \<Rightarrow> Inr None)"
| "coerce_number E (JList xs) = Inr None"
| "coerce_number E (JDict d) = Inr None"



















section \<open>The document store\<close>

record page_entry =
  page_no :: int
  page_used_ocr :: bool
  page_text :: pystr

record 'img doc_store =
  doc_id :: "pystr option"
  pages :: "page_entry list option"
  images :: "'img list option"
  full_text :: "pystr option"

definition DOC_STORE_init :: "'img doc_store" where
  "DOC_STORE_init = \<lparr>doc_id = None, pages = None, images = None, full_text = None\<rparr>"

section \<open>Helpers\<close>

definition compute_doc_id :: "('page, 'img) env \<Rightarrow> pybytes \<Rightarrow> pystr" where
  "compute_doc_id E pdf_bytes = sha256_hexdigest E pdf_bytes"

definition page_to_image :: "('page, 'img) env \<Rightarrow> 'page \<Rightarrow> int \<Rightarrow> 'img" where
  "page_to_image E p dpi = img_convert E (py ''RGB'') (get_pixmap_image E p dpi)"

definition binarize :: "nat \<Rightarrow> nat" where
  "binarize x = (if x < 160 then 0 else 255)"

definition preprocess_for_ocr :: "('page, 'img) env \<Rightarrow> 'img \<Rightarrow> 'img" where
  "preprocess_for_ocr E img =
     (let img1 = exif_transpose E img;
          img2 = img_convert E (py ''L'') img1;
          img3 = autocontrast E img2;
          img4 = filter_sharpen E img3
      in img_point E binarize (py ''1'') img4)"

definition psm6 :: pystr where
  "psm6 = py ''--psm 6''"

text \<open>\<open>x or ""\<close> on a string.\<close>

definition or_empty :: "pystr \<Rightarrow> pystr" where
  "or_empty s = (if s \<noteq> [] then s else [])"

definition extract_text_from_page ::
  "('page, 'img) env \<Rightarrow> 'page \<Rightarrow> 'img \<Rightarrow> pyexc + (pystr \<times> bool)" where
  "extract_text_from_page E p img =
     (let text_layer = strip (or_empty (get_text E p)) in
      if length text_layer \<ge> 30 then Inr (text_layer, False)
      else (let ocr_img = preprocess_for_ocr E img in
            case image_to_string E ocr_img psm6 of
              Inl e \<Rightarrow> Inl e
            | Inr t \<Rightarrow> Inr (t, True)))"

section \<open>Tools\<close>

definition no_text_error :: pystr where
  "no_text_error = py ''ERROR: No document text loaded. Upload and process a PDF first.''"

definition no_pages_error :: pystr where
  "no_pages_error = py ''ERROR: No pages loaded. Upload and process a PDF first.''"

definition no_images_error :: pystr where
  "no_images_error = py ''ERROR: No document images loaded. Upload and process a PDF first.''"

definition out_of_range_error :: "nat \<Rightarrow> pystr" where
  "out_of_range_error n = py ''ERROR: page_number out of range. Must be 1..'' @ str_of_nat n"

definition get_full_text :: "'img doc_store \<Rightarrow> pyexc + pystr" where
  "get_full_text st =
     (case full_text st of
        None \<Rightarrow> Inr no_text_error
      | Some ft \<Rightarrow> if ft \<noteq> [] \<and> strip ft \<noteq> [] then Inr ft else Inr no_text_error)"

definition get_page_text :: "'img doc_store \<Rightarrow> int \<Rightarrow> pyexc + pystr" where
  "get_page_text st page_number =
     (case pages st of
        None \<Rightarrow> Inr no_pages_error
      | Some ps \<Rightarrow>
          if ps = [] then Inr no_pages_error
          else if page_number < 1 \<or> page_number > int (length ps)
            then Inr (out_of_range_error (length ps))
          else Inr (page_text (ps ! nat (page_number - 1))))"

definition ocr_page :: "('page, 'img) env \<Rightarrow> 'img doc_store \<Rightarrow> int \<Rightarrow> pyexc + pystr" where
  "ocr_page E st page_number =
     (case images st of
        None \<Rightarrow> Inr no_images_error
      | Some ims \<Rightarrow>
          if ims = [] then Inr no_images_error
          else if page_number < 1 \<or> page_number > int (length ims)
            then Inr (out_of_range_error (length ims))
          else (let img = ims ! nat (page_number - 1);
                    ocr_img = preprocess_for_ocr E img
                in image_to_string E ocr_img psm6))"

section \<open>Upload handler\<close>

text \<open>
  The handler calls the rasterizer and the OCR engine; the calls it makes are recorded
  as events, so that "no page is rendered again" is a statement about the run.
\<close>

datatype event = Rendered int int | Ocred int

record 'img loop_state =
  ls_pages :: "page_entry list"
  ls_images :: "'img list"
  ls_parts :: "pystr list"
  ls_events :: "event list"

definition loop_init :: "'img loop_state" where
  "loop_init = \<lparr>ls_pages = [], ls_images = [], ls_parts = [], ls_events = []\<rparr>"

text \<open>The loop \<open>for i in range(len(doc))\<close>, from index \<open>i\<close> on, over the pages still to do.\<close>

fun process_pages ::
  "('page, 'img) env \<Rightarrow> int \<Rightarrow> 'page list \<Rightarrow> int \<Rightarrow> 'img loop_state \<Rightarrow> pyexc + 'img loop_state" where
  "process_pages E dpi [] i s = Inr s"
| "process_pages E dpi (p # ps) i s =
     (let img = page_to_image E p dpi in
      case extract_text_from_page E p img of
        Inl e \<Rightarrow> Inl e
      | Inr (t, used_ocr) \<Rightarrow>
          process_pages E dpi ps (i + 1)
            \<lparr>ls_pages = ls_pages s @ [\<lparr>page_no = i + 1, page_used_ocr = used_ocr, page_text = t\<rparr>],
             ls_images = ls_images s @ [img],
             ls_parts = ls_parts s @ [t],
             ls_events = ls_events s @ [Rendered (i + 1) dpi] @ (if used_ocr then [Ocred (i + 1)] else [])\<rparr>)"

text \<open>
  The body of \<open>if uploaded:\<close> up to the assignment of the store, as a function of the
  store it finds at line 202. The result is the store after the upload and the events
  of this upload; an exception leaves the store as it was.
\<close>

definition upload ::
  "('page, 'img) env \<Rightarrow> 'img doc_store \<Rightarrow> pybytes \<Rightarrow> int \<Rightarrow> pyexc + ('img doc_store \<times> event list)" where
  "upload E st pdf_bytes dpi =
     (let did = compute_doc_id E pdf_bytes in
      if doc_id st \<noteq> Some did \<or> pages st = None then
        (case fitz_open E pdf_bytes of
           Inl e \<Rightarrow> Inl e
         | Inr doc \<Rightarrow>
             (case process_pages E dpi doc 0 loop_init of
                Inl e \<Rightarrow> Inl e
              | Inr s \<Rightarrow>
                  Inr (\<lparr>doc_id = Some did, pages = Some (ls_pages s), images = Some (ls_images s),
                        full_text = Some (str_join (py [CHR 0x0A, CHR 0x0A]) (ls_parts s))\<rparr>,
                       ls_events s)))
      else Inr (st, []))"

text \<open>The events that are a call of the rasterizer.\<close>

fun is_render :: "event \<Rightarrow> bool" where
  "is_render (Rendered k dpi) = True"
| "is_render (Ocred k) = False"

text \<open>
  One run of the script with an uploaded file. The script is executed from its first
  line at every interaction with the page. Line 37 creates \<open>DOC_STORE\<close> with every
  entry \<open>None\<close>, and nothing writes it between line 37 and the test of line 202, so
  the handler starts from that store in every run.
\<close>

definition run_script ::
  "('page, 'img) env \<Rightarrow> pybytes \<Rightarrow> int \<Rightarrow> pyexc + ('img doc_store \<times> event list)" where
  "run_script E pdf_bytes dpi = upload E DOC_STORE_init pdf_bytes dpi"

text \<open>The runs of a session, one after the other, each with its file and its DPI.\<close>

definition session ::
  "('page, 'img) env \<Rightarrow> (pybytes \<times> int) list \<Rightarrow> (pyexc + ('img doc_store \<times> event list)) list" where
  "session E runs = map (\<lambda>(pdf_bytes, dpi). run_script E pdf_bytes dpi) runs"

section \<open>The extraction run\<close>

text \<open>
  The statements of the run work on the value \<open>json.loads\<close> returned. That value is a
  tree: no object occurs twice in it, so a change made in place through a reference
  (\<open>inv\<close>, \<open>due\<close>, \<open>node\<close>, \<open>f\<close>) is the same change in the tree, and is written here as
  an update of the tree at the key the reference was read from.
\<close>



















section \<open>A concrete environment\<close>

text \<open>
  A small instance of the collaborators, used to run the definitions: a page handle is
  its embedded text, an image is a number, the document opened from any bytes has the
  two pages given below, and the OCR engine reads the empty string from every image.
  The agent answers \<open>[1]\<close> (91, 49, 93) to every task, and the JSON parser knows that
  one text. The decimal digits beyond ASCII are the Arabic-Indic ones (1632 to 1641).
\<close>

definition ex_page1 :: pystr where
  "ex_page1 = py ''INVOICE #A-100 BALANCE DUE $ 186.51'' @ [10]"

definition ex_page2 :: pystr where
  "ex_page2 = []"

definition ex_env :: "(pystr, nat) env" where
  "ex_env = \<lparr>sha256_hexdigest = (\<lambda>b. map unat b),
             fitz_open = (\<lambda>b. Inr [ex_page1, ex_page2]),
             get_text = (\<lambda>p. p),
             get_pixmap_image = (\<lambda>p dpi. length p),
             img_convert = (\<lambda>m i. i),
             exif_transpose = (\<lambda>i. i),
             autocontrast = (\<lambda>i. i),
             filter_sharpen = (\<lambda>i. i),
             img_point = (\<lambda>f m i. i),
             image_to_string = (\<lambda>i c. Inr []),
             json_loads = (\<lambda>s. if s = [91, 49, 93] then Inr (JList [JInt 1])
                               else Inl (Exc JSONDecodeError [])),
             unicode_decimal = (\<lambda>c. if 1632 \<le> c \<and> c \<le> 1641 then Some (c - 1632) else None),
             strftime_pads_year = True,
             get_anthropic_key = Some [107],
             agent_invoke = (\<lambda>task. Inr [91, 49, 93])\<rparr>"

definition ex_store :: "nat doc_store" where
  "ex_store = \<lparr>doc_id = Some [1, 2, 3],
               pages = Some [\<lparr>page_no = 1, page_used_ocr = False, page_text = strip ex_page1\<rparr>,
                             \<lparr>page_no = 2, page_used_ocr = True, page_text = []\<rparr>],
               images = Some [36, 0],
               full_text = Some (strip ex_page1 @ [10, 10])\<rparr>"

text \<open>A one-page document whose page is blank: no text layer, and OCR reads nothing.\<close>

definition ex_blank_env :: "(pystr, nat) env" where
  "ex_blank_env = ex_env\<lparr>fitz_open := (\<lambda>b. Inr [ex_page2])\<rparr>"

definition ex_blank_store :: "nat doc_store" where
  "ex_blank_store = \<lparr>doc_id = Some [1],
                     pages = Some [\<lparr>page_no = 1, page_used_ocr = True, page_text = []\<rparr>],
                     images = Some [0],
                     full_text = Some []\<rparr>"

text \<open>A document without pages, and the store after its upload.\<close>

definition ex_empty_env :: "(pystr, nat) env" where
  "ex_empty_env = ex_env\<lparr>fitz_open := (\<lambda>b. Inr [])\<rparr>"

definition ex_empty_store :: "nat doc_store" where
  "ex_empty_store = \<lparr>doc_id = Some [1], pages = Some [], images = Some [], full_text = Some []\<rparr>"

text \<open>
  An agent answer: the JSON object \<open>{"a": "}```"}\<close> (one key, whose string value is a
  closing brace and three backticks; 34 is the double quote) inside a \<open>```json\<close> fence.
\<close>

definition ex_inner :: pystr where
  "ex_inner = [123, 34, 97, 34, 58, 32, 34, 125, 96, 96, 96, 34, 125]"

definition ex_fenced :: pystr where
  "ex_fenced = [96, 96, 96, 106, 115, 111, 110, 10] @ ex_inner @ [10, 96, 96, 96]"




section \<open>Facts about strings\<close>

lemma strip_eq_Nil_iff: "strip s = [] \<longleftrightarrow> (\<forall>c\<in>set s. py_isspace c)"
proof
  assume a: "strip s = []"
  have "dropWhile py_isspace s = []"
  proof (rule ccontr)
    assume n: "dropWhile py_isspace s \<noteq> []"
    from a have "\<forall>x\<in>set (dropWhile py_isspace s). py_isspace x"
      by (simp add: strip_def rstrip_def lstrip_def)
    with n have "py_isspace (hd (dropWhile py_isspace s))" by simp
    with n show False using hd_dropWhile [of py_isspace s] by simp
  qed
  then show "\<forall>c\<in>set s. py_isspace c" by simp
next
  assume "\<forall>c\<in>set s. py_isspace c"
  then have d: "dropWhile py_isspace s = []" by simp
  show "strip s = []" unfolding strip_def rstrip_def lstrip_def d by simp
qed

lemma strip_ex_page1: "strip ex_page1 = py ''INVOICE #A-100 BALANCE DUE $ 186.51''"
  by (simp add: ex_page1_def strip_def lstrip_def rstrip_def py_def py_isspace_def)

lemmas float_defs = float_of_str_def to_ascii_def float_abs_def float_number_def ascii_lower_def
  float_isspace_def is_digit_def digits_val_def decimal_float_def py_isspace_def py_def

section \<open>Facts about dates\<close>





section \<open>Facts about the extraction run\<close>












section \<open>Properties of the tools\<close>

text \<open>
  C7, as stated, fails on a loaded document with no pages (\<open>N = 0\<close>): the upload stores
  an empty list of pages and an empty list of images, the tests \<open>if not pages\<close> and
  \<open>if not images\<close> come before the range tests, and the tools answer "No pages loaded"
  and "No document images loaded", not "Must be 1..0".
\<close>

theorem zero_page_document_has_no_range_error:
  "run_script ex_empty_env [1] 200 = Inr (ex_empty_store, [])
 \<and> get_page_text ex_empty_store 0
     = Inr (py ''ERROR: No pages loaded. Upload and process a PDF first.'')
 \<and> ocr_page ex_empty_env ex_empty_store 1
     = Inr (py ''ERROR: No document images loaded. Upload and process a PDF first.'')
 \<and> get_page_text ex_empty_store 0 \<noteq> Inr (py ''ERROR: page_number out of range. Must be 1..0'')
 \<and> ocr_page ex_empty_env ex_empty_store 1
     \<noteq> Inr (py ''ERROR: page_number out of range. Must be 1..0'')"
  by (simp add: run_script_def upload_def ex_empty_env_def ex_env_def ex_empty_store_def
      DOC_STORE_init_def compute_doc_id_def loop_init_def get_page_text_def ocr_page_def
      no_pages_error_def no_images_error_def py_def)

text \<open>
  C7 (amended). In a store holding a document of \<open>N \<ge> 1\<close> pages (as many images as
  pages), for every integer page number outside \<open>1..N\<close> both \<open>get_page_text\<close> and
  \<open>ocr_page\<close> return the string "ERROR: page_number out of range. Must be 1..N"; the
  result is a returned value (\<open>Inr\<close>), not an exception, whatever the OCR engine would
  do.
\<close>

theorem out_of_range_returns_error:
  assumes "pages st = Some ps" and "images st = Some ims"
    and "length ps = N" and "length ims = N" and "N \<ge> 1"
    and "page_number < 1 \<or> page_number > int N"
  shows "get_page_text st page_number =
           Inr (py ''ERROR: page_number out of range. Must be 1..'' @ str_of_nat N)
       \<and> ocr_page E st page_number =
           Inr (py ''ERROR: page_number out of range. Must be 1..'' @ str_of_nat N)"
  using assms by (auto simp: get_page_text_def ocr_page_def out_of_range_error_def)

theorem out_of_range_returns_error_witness:
  "get_page_text ex_store 0 = Inr (py ''ERROR: page_number out of range. Must be 1..2'')
   \<and> ocr_page ex_env ex_store 0 = Inr (py ''ERROR: page_number out of range. Must be 1..2'')
   \<and> get_page_text ex_store 3 = Inr (py ''ERROR: page_number out of range. Must be 1..2'')
   \<and> ocr_page ex_env ex_store 3 = Inr (py ''ERROR: page_number out of range. Must be 1..2'')"
proof -
  have n: "str_of_nat 2 = py ''2''" by code_simp
  have p: "pages ex_store = Some [\<lparr>page_no = 1, page_used_ocr = False, page_text = strip ex_page1\<rparr>,
                                  \<lparr>page_no = 2, page_used_ocr = True, page_text = []\<rparr>]"
    and i: "images ex_store = Some [36, 0]"
    by (simp_all add: ex_store_def)
  have a: "get_page_text ex_store 0 = Inr (py ''ERROR: page_number out of range. Must be 1..'' @ str_of_nat 2)
         \<and> ocr_page ex_env ex_store 0 = Inr (py ''ERROR: page_number out of range. Must be 1..'' @ str_of_nat 2)"
    by (rule out_of_range_returns_error [OF p i]) simp_all
  have b: "get_page_text ex_store 3 = Inr (py ''ERROR: page_number out of range. Must be 1..'' @ str_of_nat 2)
         \<and> ocr_page ex_env ex_store 3 = Inr (py ''ERROR: page_number out of range. Must be 1..'' @ str_of_nat 2)"
    by (rule out_of_range_returns_error [OF p i]) simp_all
  show ?thesis using a b by (simp add: n py_def)
qed

text \<open>
  C8, as stated, fails on the empty store: \<open>get_page_text\<close> answers "No pages loaded",
  \<open>ocr_page\<close> answers "No document images loaded".
\<close>

theorem tool_empty_store_strings_differ:
  "get_page_text (DOC_STORE_init :: nat doc_store) 1 \<noteq> ocr_page ex_env DOC_STORE_init 1"
  by (simp add: get_page_text_def ocr_page_def DOC_STORE_init_def no_pages_error_def
      no_images_error_def py_def)

text \<open>
  C8 (amended). For a store holding at least one page and as many images as pages, the
  two tools return the same string for every out-of-range page number. For a store
  with no pages and no images each tool returns its own message: \<open>get_page_text\<close>
  "ERROR: No pages loaded. Upload and process a PDF first.", \<open>ocr_page\<close>
  "ERROR: No document images loaded. Upload and process a PDF first.".
\<close>

theorem tool_error_strings:
  "(pages st = Some ps \<and> images st = Some ims \<and> length ps = length ims \<and> ps \<noteq> []
      \<and> (page_number < 1 \<or> page_number > int (length ps))
     \<longrightarrow> get_page_text st page_number = ocr_page E st page_number)
 \<and> ((pages st = None \<or> pages st = Some []) \<and> (images st = None \<or> images st = Some [])
     \<longrightarrow> get_page_text st page_number
           = Inr (py ''ERROR: No pages loaded. Upload and process a PDF first.'')
       \<and> ocr_page E st page_number
           = Inr (py ''ERROR: No document images loaded. Upload and process a PDF first.''))"
  by (auto simp: get_page_text_def ocr_page_def no_pages_error_def no_images_error_def)

theorem tool_error_strings_witness:
  "get_page_text ex_store 3 = ocr_page ex_env ex_store 3
 \<and> get_page_text (DOC_STORE_init :: nat doc_store) 3
     = Inr (py ''ERROR: No pages loaded. Upload and process a PDF first.'')
 \<and> ocr_page ex_env DOC_STORE_init 3
     = Inr (py ''ERROR: No document images loaded. Upload and process a PDF first.'')"
  using tool_error_strings [of ex_store "the (pages ex_store)" "the (images ex_store)" 3 ex_env]
    tool_error_strings [of "DOC_STORE_init :: nat doc_store" "[]" "[]" 3 ex_env]
  by (simp add: ex_store_def DOC_STORE_init_def)

text \<open>
  C9, as stated, fails on a processed document without text: uploading the one-page
  blank document fills the store, the cached \<open>full_text\<close> is the empty string, and
  \<open>get_full_text\<close> returns the error string.
\<close>

theorem get_full_text_blank_document:
  "upload ex_blank_env DOC_STORE_init [1] 200 = Inr (ex_blank_store, [Rendered 1 200, Ocred 1])
 \<and> full_text ex_blank_store = Some []
 \<and> get_full_text ex_blank_store
     = Inr (py ''ERROR: No document text loaded. Upload and process a PDF first.'')"
  by (simp add: upload_def ex_blank_env_def ex_env_def ex_blank_store_def DOC_STORE_init_def
      compute_doc_id_def loop_init_def extract_text_from_page_def page_to_image_def
      preprocess_for_ocr_def or_empty_def strip_def lstrip_def rstrip_def ex_page2_def
      get_full_text_def no_text_error_def)

text \<open>
  C9 (amended). \<open>get_full_text\<close> returns the cached \<open>full_text\<close> when it holds at least
  one character that is not whitespace, and the string
  "ERROR: No document text loaded. Upload and process a PDF first." otherwise: when
  nothing is cached, and when the cached text is empty or whitespace only.
\<close>

theorem get_full_text_cases:
  "(full_text st = Some ft \<and> (\<exists>c\<in>set ft. \<not> py_isspace c) \<longrightarrow> get_full_text st = Inr ft)
 \<and> (full_text st = None \<or> (full_text st = Some ft \<and> (\<forall>c\<in>set ft. py_isspace c))
     \<longrightarrow> get_full_text st
           = Inr (py ''ERROR: No document text loaded. Upload and process a PDF first.''))"
  using strip_eq_Nil_iff [of ft]
  by (auto simp: get_full_text_def no_text_error_def)

theorem get_full_text_cases_witness:
  "get_full_text ex_store = Inr (strip ex_page1 @ [10, 10])
 \<and> get_full_text (DOC_STORE_init :: nat doc_store)
     = Inr (py ''ERROR: No document text loaded. Upload and process a PDF first.'')
 \<and> get_full_text ex_blank_store
     = Inr (py ''ERROR: No document text loaded. Upload and process a PDF first.'')"
proof -
  have "\<exists>c\<in>set (strip ex_page1 @ [10, 10]). \<not> py_isspace c"
    by (simp add: strip_ex_page1 py_def py_isspace_def)
  then show ?thesis
    using get_full_text_cases [of ex_store "strip ex_page1 @ [10, 10]"]
      get_full_text_cases [of "DOC_STORE_init :: nat doc_store" "[]"]
      get_full_text_cases [of ex_blank_store "[]"]
    by (simp add: ex_store_def DOC_STORE_init_def ex_blank_store_def)
qed

section \<open>Per-page extraction policy\<close>

text \<open>
  C1, as stated, fails on a page whose text layer ends with a newline: the trimmed
  text has 35 characters, and the text returned is the trimmed one, not the text layer.
\<close>

theorem extract_text_keeps_trimmed_text:
  "length (strip (get_text ex_env ex_page1)) \<ge> 30
 \<and> extract_text_from_page ex_env ex_page1 36 \<noteq> Inr (get_text ex_env ex_page1, False)
 \<and> extract_text_from_page ex_env ex_page1 36 = Inr (strip (get_text ex_env ex_page1), False)"
  by (simp add: extract_text_from_page_def ex_env_def or_empty_def strip_ex_page1)
    (simp add: ex_page1_def py_def)

text \<open>
  C1 (amended). If the page's text layer, trimmed of whitespace, has at least 30
  characters, \<open>extract_text_from_page\<close> returns that trimmed text with \<open>used_ocr\<close> false.
  Otherwise it runs the OCR engine, in mode "--psm 6", on the image preprocessed by
  \<open>preprocess_for_ocr\<close> and returns the engine's output with \<open>used_ocr\<close> true.
\<close>

theorem extract_text_from_page_policy:
  "(length (strip (get_text E p)) \<ge> 30
      \<longrightarrow> extract_text_from_page E p img = Inr (strip (get_text E p), False))
 \<and> (length (strip (get_text E p)) < 30
      \<and> image_to_string E (preprocess_for_ocr E img) (py ''--psm 6'') = Inr t
      \<longrightarrow> extract_text_from_page E p img = Inr (t, True))"
  by (auto simp: extract_text_from_page_def or_empty_def psm6_def)

theorem extract_text_from_page_policy_witness:
  "extract_text_from_page ex_env ex_page1 36 = Inr (py ''INVOICE #A-100 BALANCE DUE $ 186.51'', False)
 \<and> extract_text_from_page ex_env ex_page2 0 = Inr ([], True)"
proof -
  have s2: "strip ex_page2 = []" by (simp add: ex_page2_def strip_def lstrip_def rstrip_def)
  have g: "get_text ex_env = (\<lambda>p. p)" by (simp add: ex_env_def)
  have o: "image_to_string ex_env (preprocess_for_ocr ex_env 0) (py ''--psm 6'') = Inr []"
    by (simp add: ex_env_def)
  have l1: "length (strip (get_text ex_env ex_page1)) \<ge> 30" by (simp add: g strip_ex_page1 py_def)
  have l2: "length (strip (get_text ex_env ex_page2)) < 30" by (simp add: g s2)
  show ?thesis
    using extract_text_from_page_policy [of ex_env ex_page1 36 "[]"]
      extract_text_from_page_policy [of ex_env ex_page2 0 "[]"] l1 l2 o
    by (simp add: g strip_ex_page1 s2)
qed

section \<open>The cache of the upload handler\<close>

text \<open>
  C3. The test of line 202 compares the stored hash with the hash of the uploaded
  bytes, and a handler that found the store of the previous run would skip the
  processing (last conjunct). It never finds it: every run creates the store anew
  before the handler. In a session of three runs with the same bytes, the third at
  another DPI, each run renders both pages again and runs OCR on the second again.
\<close>

theorem same_bytes_are_processed_again:
  "session ex_env [([1, 2, 3], 200), ([1, 2, 3], 200), ([1, 2, 3], 300)]
     = [Inr (ex_store, [Rendered 1 200, Rendered 2 200, Ocred 2]),
        Inr (ex_store, [Rendered 1 200, Rendered 2 200, Ocred 2]),
        Inr (ex_store, [Rendered 1 300, Rendered 2 300, Ocred 2])]
 \<and> upload ex_env ex_store [1, 2, 3] 300 = Inr (ex_store, [])"
proof -
  have e: "extract_text_from_page ex_env ex_page1 36 = Inr (strip ex_page1, False)"
    "extract_text_from_page ex_env ex_page2 0 = Inr ([], True)"
    by (simp_all add: extract_text_from_page_def ex_env_def or_empty_def strip_ex_page1)
      (simp_all add: py_def ex_page1_def ex_page2_def strip_def lstrip_def rstrip_def)
  have l: "length ex_page1 = 36" "length ex_page2 = 0"
    by (simp_all add: ex_page1_def ex_page2_def py_def)
  have pti: "page_to_image ex_env ex_page1 d = 36" "page_to_image ex_env ex_page2 d = 0" for d
    by (simp_all add: page_to_image_def ex_env_def l)
  have o: "fitz_open ex_env = (\<lambda>b. Inr [ex_page1, ex_page2])"
    "sha256_hexdigest ex_env = map unat" by (simp_all add: ex_env_def)
  have u: "upload ex_env DOC_STORE_init [1, 2, 3] d
     = Inr (ex_store, [Rendered 1 d, Rendered 2 d, Ocred 2])" for d
    by (simp add: upload_def compute_doc_id_def DOC_STORE_init_def o pti e loop_init_def ex_store_def py_def)
  have h: "upload ex_env ex_store [1, 2, 3] 300 = Inr (ex_store, [])"
    by (simp add: upload_def compute_doc_id_def o ex_store_def)
  show ?thesis by (simp add: session_def run_script_def u h)
qed

theorem same_bytes_are_processed_again_witness:
  "map (map_sum id snd) (session ex_env [([1, 2, 3], 200), ([1, 2, 3], 200), ([1, 2, 3], 300)])
     = [Inr [Rendered 1 200, Rendered 2 200, Ocred 2],
        Inr [Rendered 1 200, Rendered 2 200, Ocred 2],
        Inr [Rendered 1 300, Rendered 2 300, Ocred 2]]
 \<and> map_sum id snd (upload ex_env ex_store [1, 2, 3] 300) = Inr []"
  using same_bytes_are_processed_again by simp

section \<open>Stripping the fence\<close>

text \<open>
  C6. On the fenced answer above, \<open>extract_json\<close> does not return the inner object: the
  lazy \<open>.*?\<close> stops at the first closing brace that is followed by three backticks,
  which here lies inside the string value, and the result is the truncated text
  \<open>{"a": "}\<close>. What is then parsed is not the inner object.
\<close>

theorem extract_json_truncates_fenced_object:
  "extract_json ex_fenced = [123, 34, 97, 34, 58, 32, 34, 125]
 \<and> extract_json ex_fenced \<noteq> ex_inner"
  by (simp add: ex_fenced_def ex_inner_def extract_json_def fence_rx_def seq_def lit_def
      one_of_def re_match_def group_def py_isspace_def strip_def lstrip_def rstrip_def)

section \<open>Coercing numbers\<close>

text \<open>
  C5. On an integer beyond the range of a double, which \<open>json.loads\<close> returns for a
  long enough digit string, \<open>float(x)\<close> raises \<open>OverflowError\<close>. The conversion of
  line 137 is outside the \<open>try\<close> of the string branch, so \<open>coerce_number\<close> raises: the
  input is numeric and the result is neither a float nor null.
\<close>

theorem coerce_number_overflow:
  "coerce_number ex_env (JInt (10 ^ 400))
     = Inl (Exc OverflowError (py ''int too large to convert to float''))"
  by (simp add: float_of_int_def)

text \<open>
  On the other inputs \<open>coerce_number\<close> returns: null for null, a float as it is, the
  float of an integer within the range of a double, and for a string the float parsed
  after trimming, removing every comma and one leading \<open>$\<close>, or null when that
  fails. Decimal digits beyond ASCII are read as \<open>float\<close> reads them.
\<close>

lemma coerce_number_returns:
  "coerce_number E JNull = Inr None
 \<and> coerce_number E (JFloat x) = Inr (Some x)
 \<and> (\<bar>i\<bar> < 2 ^ 1024 - 2 ^ 970 \<longrightarrow> coerce_number E (JInt i) = Inr (Some (FDec (i < 0) (of_int \<bar>i\<bar>))))
 \<and> coerce_number E (JStr s) = Inr (float_of_str E (sub_leading_dollar (remove_char 44 (strip s))))
 \<and> coerce_number E (JInt 42) = Inr (Some (FDec False 42))
 \<and> coerce_number E (JStr (py ''$1,234.56'')) = Inr (Some (FDec False (30864 / 25)))
 \<and> coerce_number E (JStr (py ''abc'')) = Inr None"
proof -
  have a: "coerce_number E (JStr s) = Inr (float_of_str E (sub_leading_dollar (remove_char 44 (strip s))))"
    by (simp add: Let_def split: option.splits)
  have b: "coerce_number E (JStr (py ''$1,234.56'')) = Inr (Some (FDec False (30864 / 25)))"
    by (simp add: float_defs strip_def lstrip_def rstrip_def remove_char_def sub_leading_dollar_def)
  have c: "coerce_number E (JStr (py ''abc'')) = Inr None"
    by (simp add: float_defs strip_def lstrip_def rstrip_def remove_char_def sub_leading_dollar_def)
  show ?thesis using a b c by (simp add: float_of_int_def)
qed

lemma coerce_number_arabic_indic_digits:
  "coerce_number ex_env (JStr [1633, 1634, 1635]) = Inr (Some (FDec False 123))"
  by (simp add: float_defs todecimal_def ex_env_def strip_def lstrip_def rstrip_def remove_char_def
      sub_leading_dollar_def)

section \<open>Normalising dates\<close>



section \<open>The answer that is not an object\<close>



section \<open>The changes of the normalizer\<close>




end
